theory Spec2Isabelle
  imports Main "HOL-Library.Sublist" "HOL-Library.Multiset"
begin

section \<open>Data model (types.ts, supabaseClient.ts, playwrightApply.ts)\<close>

text \<open>
  Strings are byte lists (UTF-8). A thrown JavaScript value is either an \<open>Error\<close>
  instance carrying its message, or some other value (the store client throws the
  plain error object it receives, which is not an \<open>Error\<close> instance).
\<close>

datatype exn = JsError string | NonError

text \<open>The status column: \<open>'applied' | 'error' | 'skipped' | 'duplicate'\<close>.\<close>

datatype status = Applied | Error | Skipped | Duplicate

text \<open>\<open>interface JobSearchResult\<close>; \<open>description?\<close> and \<open>posted_date?\<close> are optional.\<close>

record JobSearchResult =
  title :: string
  company :: string
  location :: string
  url :: string
  description :: "string option"
  posted_date :: "string option"

text \<open>
  \<open>interface AppliedJob\<close> without \<open>id\<close> and \<open>applied_at\<close>, which the insert
  generates (\<open>Omit<AppliedJob, 'id' | 'applied_at'>\<close>).
\<close>

record AppliedJob =
  user_id :: string
  job_title :: string
  company_name :: string
  job_url :: string
  status :: status
  job_notes :: "string option"
  error_message :: "string option"

text \<open>
  \<open>interface ApplicationResult\<close>; its \<open>status\<close> and \<open>notes\<close> fields are named
  \<open>res_status\<close> and \<open>res_notes\<close> here, apart from those of \<open>AppliedJob\<close>
  (whose \<open>notes\<close> is \<open>job_notes\<close>).
\<close>

record ApplicationResult =
  success :: bool
  jobUrl :: string
  jobTitle :: string
  companyName :: string
  res_status :: status
  errorMessage :: "string option"
  res_notes :: "string option"

text \<open>
  A row of the \<open>users\<close> table (\<open>userConfig: any\<close>), with the columns the modelled
  functions read and the search and contact columns they could have read.
  \<open>id\<close> is named \<open>id_user\<close>.
\<close>

record userConfig =
  id_user :: string
  full_name :: "string option"
  phone :: "string option"
  country :: "string option"
  search_terms :: "string option"
  search_location :: "string option"
  blacklisted_companies :: "string option"
  skip_keywords :: "string option"
  skip_security_clearance :: bool

text \<open>
  The selectors the code passes to the page, by name:
  \<^item> listing containers of \<open>searchJobs\<close>: \<open>[data-testid="job-card"]\<close>, \<open>.job-card\<close>,
    \<open>[class*="job"]\<close>, \<open>a[href*="/jobs/"]\<close>;
  \<^item> of \<open>applyToJob\<close>: the apply button, the backdrop, the form, the submit control
    (\<open>button[type="submit"], input[type="submit"], button:has-text("Submit")\<close>) and the
    success indicator (\<open>.success, .confirmation, [data-testid="success"]\<close>);
  \<^item> of \<open>improvedSubmit\<close>: its five submit selectors and the validation-error
    indicator (\<open>.error, .form-error, [aria-live="assertive"]\<close>);
  \<^item> of \<open>handlePhoneInput\<close>: \<open>.iti__selected-flag\<close>, \<open>#iti-0__item-us-preferred\<close> and
    the phone input.
\<close>

datatype selector =
    SelJobCardTestId | SelJobCardClass | SelClassJob | SelJobsLink
  | SelApplyButton | SelBackdrop | SelForm | SelSubmit | SelSuccess
  | SelSubmitButtonType | SelSubmitInputType | SelSubmitApplicationText
  | SelSubmitText | SelApplyText | SelValidationError
  | SelSelectedFlag | SelUsPreferred | SelPhoneInput

text \<open>What the code does to the page, in order.\<close>

datatype action =
    Goto string
  | WaitForSelector selector
  | Query selector
  | PressEscape
  | Click selector
  | EvaluateClick selector
  | Fill selector string
  | FillApplicationForm
  | WaitForTimeout nat

text \<open>The applicator object: \<open>true\<close> stands for a non-null field.\<close>

record PlaywrightJobApplicator =
  browser :: bool
  browser_context :: bool
  page :: bool

section \<open>String operations of JavaScript used by the code\<close>

definition isUpper :: "char \<Rightarrow> bool" where
  "isUpper c = (65 \<le> (of_char c :: nat) \<and> (of_char c :: nat) \<le> 90)"

text \<open>
  \<open>toLowerCase\<close> on ASCII letters; every other byte is kept. JavaScript also
  lower-cases letters beyond ASCII: the model is exact for texts whose capital letters
  are ASCII, and says nothing of other texts.
\<close>

definition lowerChar :: "char \<Rightarrow> char" where
  "lowerChar c = (if isUpper c then char_of ((of_char c :: nat) + 32) else c)"

definition toLowerCase :: "string \<Rightarrow> string" where
  "toLowerCase s = map lowerChar s"

text \<open>
  \<open>trim\<close> on ASCII white space: TAB, LF, VT, FF, CR, space. JavaScript also strips
  U+00A0 and the other Unicode white space: the model is exact for texts whose white
  space is ASCII.
\<close>

definition isSpace :: "char \<Rightarrow> bool" where
  "isSpace c = ((of_char c :: nat) \<in> {9, 10, 11, 12, 13, 32})"

definition trim :: "string \<Rightarrow> string" where
  "trim s = rev (dropWhile isSpace (rev (dropWhile isSpace s)))"

text \<open>\<open>s.split(',')\<close>: never empty, \<open>''.split(',') = ['']\<close>.\<close>

fun split_comma :: "string \<Rightarrow> string list" where
  "split_comma [] = [[]]"
| "split_comma (c # cs) =
     (if c = CHR '','' then [] # split_comma cs
      else (case split_comma cs of
              [] \<Rightarrow> [[c]]
            | w # ws \<Rightarrow> (c # w) # ws))"

text \<open>\<open>s.includes(k)\<close>: \<open>k\<close> occurs in \<open>s\<close> as a contiguous substring.\<close>

fun includes_str :: "string \<Rightarrow> string \<Rightarrow> bool" where
  "includes_str [] k = (k = [])"
| "includes_str (c # cs) k = (prefix k (c # cs) \<or> includes_str cs k)"

text \<open>\<open>a || b\<close> on strings: the empty string is falsy.\<close>

definition orElse :: "string \<Rightarrow> string \<Rightarrow> string" where
  "orElse a b = (if a = [] then b else a)"

text \<open>An optional string inside a template literal: \<open>undefined\<close> prints as text.\<close>

definition interpolate :: "string option \<Rightarrow> string" where
  "interpolate v = (case v of None \<Rightarrow> ''undefined'' | Some s \<Rightarrow> s)"

definition hexDigit :: "nat \<Rightarrow> char" where
  "hexDigit n = ''0123456789ABCDEF'' ! (n mod 16)"

text \<open>
  \<open>encodeURIComponent\<close>: letters, digits and \<open>- _ . ! ~ * ' ( )\<close> are kept, every
  other byte of the UTF-8 encoding becomes \<open>%XX\<close>.
\<close>

definition uriUnreserved :: "char \<Rightarrow> bool" where
  "uriUnreserved c =
     (c \<in> set ''ABCDEFGHIJKLMNOPQRSTUVWXYZabcdefghijklmnopqrstuvwxyz0123456789-_.!~*()''
      \<or> c = CHR 0x27)"

definition encodeURIComponent :: "string \<Rightarrow> string" where
  "encodeURIComponent s =
     concat (map (\<lambda>c. if uriUnreserved c then [c]
                       else [CHR ''%'', hexDigit ((of_char c :: nat) div 16),
                             hexDigit ((of_char c :: nat) mod 16)]) s)"

section \<open>Discovery: \<open>searchJobs\<close>\<close>

text \<open>
  One element matched by the listing selector, as the extraction reads it:
  the text of its title, company and location element (\<open>None\<close> when there is no such
  element) and the URL resolved from its link (empty when there is none).
\<close>

record card =
  titleElement :: "string option"
  companyElement :: "string option"
  locationElement :: "string option"
  href :: string

text \<open>What the search page does when \<open>searchJobs\<close> drives it.\<close>

record search_page =
  goto_search :: "exn option"
  listing_appears :: "selector \<Rightarrow> exn option"
  querySelectorAll :: "selector \<Rightarrow> card list"
  evaluate_fails :: "exn option"

text \<open>Lines 70 to 74: the search URL. The argument is the one of \<open>searchJobs\<close>.\<close>

definition searchUrl :: "userConfig \<Rightarrow> string" where
  "searchUrl userConfig =
     (let searchTerms = ''software engineer developer programmer'';
          location' = ''Remote''
      in ''https://jobs.workable.com/search?q='' @ encodeURIComponent searchTerms
         @ ''&location='' @ encodeURIComponent location')"

text \<open>Lines 80 to 98: the nested fallbacks; the last wait is not caught here.\<close>

definition chooseJobCards :: "search_page \<Rightarrow> (exn + selector) \<times> action list" where
  "chooseJobCards pg =
     (case listing_appears pg SelJobCardTestId of
        None \<Rightarrow> (Inr SelJobCardTestId, [WaitForSelector SelJobCardTestId])
      | Some _ \<Rightarrow>
        (case listing_appears pg SelJobCardClass of
           None \<Rightarrow> (Inr SelJobCardClass,
                     [WaitForSelector SelJobCardTestId, WaitForSelector SelJobCardClass])
         | Some _ \<Rightarrow>
           (case listing_appears pg SelClassJob of
              None \<Rightarrow> (Inr SelClassJob,
                        [WaitForSelector SelJobCardTestId, WaitForSelector SelJobCardClass,
                         WaitForSelector SelClassJob])
            | Some _ \<Rightarrow>
              (case listing_appears pg SelJobsLink of
                 None \<Rightarrow> (Inr SelJobsLink,
                           [WaitForSelector SelJobCardTestId, WaitForSelector SelJobCardClass,
                            WaitForSelector SelClassJob, WaitForSelector SelJobsLink])
               | Some e \<Rightarrow> (Inl e,
                           [WaitForSelector SelJobCardTestId, WaitForSelector SelJobCardClass,
                            WaitForSelector SelClassJob, WaitForSelector SelJobsLink])))))"

text \<open>Lines 124 to 139: one element gives a result when it has a title and a URL.\<close>

definition extractCard :: "card \<Rightarrow> JobSearchResult option" where
  "extractCard element =
     (case titleElement element of
        None \<Rightarrow> None
      | Some t \<Rightarrow>
          if href element = [] then None
          else Some \<lparr> title = orElse (trim t) [],
                      company = (case companyElement element of
                                   None \<Rightarrow> ''Unknown Company''
                                 | Some c \<Rightarrow> orElse (trim c) ''Unknown Company''),
                      location = (case locationElement element of
                                    None \<Rightarrow> ''Remote''
                                  | Some l \<Rightarrow> orElse (trim l) ''Remote''),
                      url = href element,
                      description = Some [],
                      posted_date = Some [] \<rparr>)"

text \<open>\<open>Array.prototype.findIndex\<close>: the first index whose element satisfies, else -1.\<close>

fun findIndex :: "('a \<Rightarrow> bool) \<Rightarrow> 'a list \<Rightarrow> int" where
  "findIndex P [] = - 1"
| "findIndex P (x # xs) =
     (if P x then 0 else (let i = findIndex P xs in if i < 0 then - 1 else i + 1))"

text \<open>
  Lines 143 to 145:
  \<open>results.filter((job, index, self) => index === self.findIndex(j => j.url === job.url))\<close>.
\<close>

definition uniqueJobs :: "JobSearchResult list \<Rightarrow> JobSearchResult list" where
  "uniqueJobs results =
     map snd (filter (\<lambda>(index, job). int index = findIndex (\<lambda>j. url j = url job) results)
                     (enumerate 0 results))"

text \<open>Lines 142 to 147: what the extraction returns from the raw results.\<close>

definition dedupAndCap :: "JobSearchResult list \<Rightarrow> JobSearchResult list" where
  "dedupAndCap results = take 10 (uniqueJobs results)"

text \<open>
  \<open>searchJobs\<close>: the guard on \<open>this.page\<close> throws; everything after it is inside the
  \<open>try\<close>, whose \<open>catch\<close> returns the empty list. The second component lists the
  page actions performed.
\<close>

definition searchJobs ::
  "PlaywrightJobApplicator \<Rightarrow> search_page \<Rightarrow> userConfig
     \<Rightarrow> (exn + JobSearchResult list) \<times> action list" where
  "searchJobs this pg userConfig =
     (if \<not> page this then (Inl (JsError ''Browser not initialized''), [])
      else
        (case goto_search pg of
           Some _ \<Rightarrow> (Inr [], [Goto (searchUrl userConfig)])
         | None \<Rightarrow>
           (case chooseJobCards pg of
              (Inl _, t) \<Rightarrow> (Inr [], Goto (searchUrl userConfig) # t)
            | (Inr jobCards, t) \<Rightarrow>
              (case evaluate_fails pg of
                 Some _ \<Rightarrow> (Inr [], Goto (searchUrl userConfig) # t)
               | None \<Rightarrow>
                   (Inr (dedupAndCap (List.map_filter extractCard (querySelectorAll pg jobCards))),
                    Goto (searchUrl userConfig) # t)))))"

text \<open>Keeping the first occurrence of each URL, as a recursion on the list.\<close>

fun dedupFirst :: "JobSearchResult list \<Rightarrow> JobSearchResult list" where
  "dedupFirst [] = []"
| "dedupFirst (x # xs) = x # dedupFirst (filter (\<lambda>j. url j \<noteq> url x) xs)"

section \<open>Eligibility filter: \<open>filterJobs\<close>\<close>

text \<open>Lines 165 to 171: the blacklisted-company check.\<close>

definition companyBlacklisted :: "userConfig \<Rightarrow> JobSearchResult \<Rightarrow> bool" where
  "companyBlacklisted userConfig job =
     (case blacklisted_companies userConfig of
        None \<Rightarrow> False
      | Some s \<Rightarrow>
          s \<noteq> [] \<and>
          (let blacklisted = map trim (split_comma (toLowerCase s))
           in list_ex (\<lambda>c. includes_str (toLowerCase (company job)) c) blacklisted))"

text \<open>Lines 174 to 181: the keyword check, on the text of the template literal.\<close>

definition hasSkipKeyword :: "userConfig \<Rightarrow> JobSearchResult \<Rightarrow> bool" where
  "hasSkipKeyword userConfig job =
     (case skip_keywords userConfig of
        None \<Rightarrow> False
      | Some s \<Rightarrow>
          s \<noteq> [] \<and>
          (let skipKeywords = map trim (split_comma (toLowerCase s));
               jobText = toLowerCase (title job @ '' '' @ company job @ '' ''
                                      @ interpolate (description job))
           in list_ex (\<lambda>keyword. includes_str jobText keyword) skipKeywords))"

text \<open>Lines 184 to 191: the clearance check, on title and description.\<close>

definition requiresClearance :: "userConfig \<Rightarrow> JobSearchResult \<Rightarrow> bool" where
  "requiresClearance userConfig job =
     (skip_security_clearance userConfig \<and>
      (let securityKeywords =
             [''security clearance'', ''clearance'', ''secret'', ''top secret'', ''ts/sci''];
           jobText = toLowerCase (title job @ '' '' @ interpolate (description job))
       in list_ex (\<lambda>keyword. includes_str jobText keyword) securityKeywords))"

text \<open>The callback of \<open>jobs.filter\<close>: three checks, each returning \<open>false\<close> at once.\<close>

definition keepJob :: "userConfig \<Rightarrow> JobSearchResult \<Rightarrow> bool" where
  "keepJob userConfig job =
     (if companyBlacklisted userConfig job then False
      else if hasSkipKeyword userConfig job then False
      else if requiresClearance userConfig job then False
      else True)"

definition filterJobs :: "JobSearchResult list \<Rightarrow> userConfig \<Rightarrow> JobSearchResult list" where
  "filterJobs jobs userConfig = filter (keepJob userConfig) jobs"

text \<open>The same callback with its checks run in any given order.\<close>

fun keepJobInOrder ::
  "(userConfig \<Rightarrow> JobSearchResult \<Rightarrow> bool) list \<Rightarrow> userConfig \<Rightarrow> JobSearchResult \<Rightarrow> bool" where
  "keepJobInOrder [] userConfig job = True"
| "keepJobInOrder (check # checks) userConfig job =
     (if check userConfig job then False else keepJobInOrder checks userConfig job)"

text \<open>
  The exclusion predicates in the words of the specification. A rule column holds a
  comma-separated list; an absent or empty column holds no rule. An entry matches a
  text when, both lower-cased, it occurs in it as a substring. The description is an
  argument, so that a posting without one can be given the empty text.
\<close>

definition ruleEntries :: "string option \<Rightarrow> string list" where
  "ruleEntries col =
     (case col of None \<Rightarrow> [] | Some s \<Rightarrow> if s = [] then [] else map trim (split_comma s))"

definition occursIn :: "string \<Rightarrow> string \<Rightarrow> bool" where
  "occursIn entry text = sublist (toLowerCase entry) (toLowerCase text)"

definition employerMatches :: "userConfig \<Rightarrow> JobSearchResult \<Rightarrow> bool" where
  "employerMatches rules p =
     (\<exists>e \<in> set (ruleEntries (blacklisted_companies rules)). occursIn e (company p))"

definition keywordMatches :: "userConfig \<Rightarrow> JobSearchResult \<Rightarrow> string \<Rightarrow> bool" where
  "keywordMatches rules p descr =
     (\<exists>k \<in> set (ruleEntries (skip_keywords rules)).
        occursIn k (title p @ '' '' @ company p @ '' '' @ descr))"

text \<open>
  The clearance predicate on the text the specification names, title, employer and
  description.
\<close>

definition clearanceMatchesText :: "userConfig \<Rightarrow> JobSearchResult \<Rightarrow> string \<Rightarrow> bool" where
  "clearanceMatchesText rules p descr =
     (skip_security_clearance rules \<and>
      (\<exists>k \<in> {''security clearance'', ''clearance'', ''secret'', ''top secret'', ''ts/sci''}.
         occursIn k (title p @ '' '' @ company p @ '' '' @ descr)))"

text \<open>
  The clearance predicate on title and description only. This is the reading of
  ``the posting text'' that the code takes (line 186); the employer is left out.
\<close>

definition clearanceMatches :: "userConfig \<Rightarrow> JobSearchResult \<Rightarrow> string \<Rightarrow> bool" where
  "clearanceMatches rules p descr =
     (skip_security_clearance rules \<and>
      (\<exists>k \<in> {''security clearance'', ''clearance'', ''secret'', ''top secret'', ''ts/sci''}.
         occursIn k (title p @ '' '' @ descr)))"

section \<open>Attempt ledger: \<open>hasAppliedToJob\<close>, \<open>logApplication\<close>\<close>

text \<open>
  The table \<open>applied_jobs\<close> is a list of rows, oldest first. The store may answer a
  request with an error, which the client throws: \<open>select_fails\<close> for the query,
  \<open>insert_fails\<close> for the insert of a row of the given status (this covers a
  rejection by the table's constraints as well).
\<close>

record store =
  select_fails :: "exn option"
  insert_fails :: "status \<Rightarrow> exn option"

text \<open>
  \<open>select('id').eq('user_id', userId).eq('job_url', jobUrl).limit(1)\<close>, then
  \<open>(data?.length || 0) > 0\<close>. No condition on \<open>status\<close>.
\<close>

definition hasAppliedToJob :: "store \<Rightarrow> AppliedJob list \<Rightarrow> string \<Rightarrow> string \<Rightarrow> exn + bool" where
  "hasAppliedToJob db ledger userId jobUrl' =
     (case select_fails db of
        Some e \<Rightarrow> Inl e
      | None \<Rightarrow>
          Inr (0 < length (take 1 (filter (\<lambda>r. user_id r = userId \<and> job_url r = jobUrl') ledger))))"

text \<open>\<open>insert(...)\<close>: the new ledger takes the place of the returned row.\<close>

definition logApplication :: "store \<Rightarrow> AppliedJob list \<Rightarrow> AppliedJob \<Rightarrow> exn + AppliedJob list" where
  "logApplication db ledger application =
     (case insert_fails db (status application) of
        Some e \<Rightarrow> Inl e
      | None \<Rightarrow> Inr (ledger @ [application]))"

section \<open>Application stage: \<open>applyToJob\<close>\<close>

text \<open>
  What the posting's page does when the code drives it. \<open>goto_job\<close> is the outcome of
  the race between the navigation and the 30 s timer; \<open>appears\<close> is \<open>waitForSelector\<close>
  (\<open>None\<close>: the element appeared; \<open>Some e\<close>: it rejected with \<open>e\<close>); \<open>present\<close> is
  \<open>page.$\<close>; \<open>elapsed_ms\<close> is \<open>Date.now() - startTime\<close> when the \<open>catch\<close> block runs.
  Queries, key presses and fixed waits are taken to complete.
\<close>

datatype nav = Loaded | Failed exn | Hung

record job_page =
  goto_job :: nav
  appears :: "selector \<Rightarrow> exn option"
  present :: "selector \<Rightarrow> bool"
  click_fails :: "selector \<Rightarrow> exn option"
  evaluate_click_fails :: "exn option"
  fill_fails :: "selector \<Rightarrow> exn option"
  fill_form_fails :: "exn option"
  elapsed_ms :: nat

text \<open>A sequence of awaited steps: the first one that throws ends it.\<close>

fun runSteps :: "(exn option \<times> action list) list \<Rightarrow> exn option \<times> action list" where
  "runSteps [] = (None, [])"
| "runSteps ((r, t) # rest) =
     (case r of
        Some e \<Rightarrow> (Some e, t)
      | None \<Rightarrow> (case runSteps rest of (r', t') \<Rightarrow> (r', t @ t')))"

text \<open>
  Lines 226 to 305 without the ledger write: navigation, apply control, form, filling,
  submission and the check for the success indicator. \<open>None\<close>: the success indicator
  was found.
\<close>

definition navigateAndSubmit :: "job_page \<Rightarrow> JobSearchResult \<Rightarrow> exn option \<times> action list" where
  "navigateAndSubmit pg job = runSteps
     [ ((case goto_job pg of
           Loaded \<Rightarrow> None
         | Failed e \<Rightarrow> Some e
         | Hung \<Rightarrow> Some (JsError ''Navigation timeout'')), [Goto (url job)]),
       (appears pg SelApplyButton, [WaitForSelector SelApplyButton]),
       (None, if present pg SelBackdrop
              then [Query SelBackdrop, PressEscape, WaitForTimeout 1000]
              else [Query SelBackdrop]),
       (case click_fails pg SelApplyButton of
          None \<Rightarrow> (None, [Click SelApplyButton])
        | Some _ \<Rightarrow> (evaluate_click_fails pg, [Click SelApplyButton, EvaluateClick SelApplyButton])),
       ((case appears pg SelForm of
           None \<Rightarrow> None
         | Some _ \<Rightarrow> Some (JsError ''No application form available'')), [WaitForSelector SelForm]),
       (fill_form_fails pg, [FillApplicationForm]),
       ((if present pg SelSubmit then None else Some (JsError ''Submit button not found'')),
        [Query SelSubmit]),
       (click_fails pg SelSubmit, [Click SelSubmit]),
       (None, [WaitForTimeout 5000]),
       ((if present pg SelSuccess then None
         else Some (JsError ''No success indicator found after submission'')),
        [Query SelSuccess]) ]"

text \<open>Lines 209 to 306: the \<open>try\<close> block.\<close>

definition tryApply ::
  "store \<Rightarrow> job_page \<Rightarrow> AppliedJob list \<Rightarrow> JobSearchResult \<Rightarrow> userConfig
     \<Rightarrow> (exn + ApplicationResult) \<times> AppliedJob list \<times> action list" where
  "tryApply db pg ledger job userConfig =
     (case hasAppliedToJob db ledger (id_user userConfig) (url job) of
        Inl e \<Rightarrow> (Inl e, ledger, [])
      | Inr True \<Rightarrow>
          (Inr \<lparr> success = False, jobUrl = url job, jobTitle = title job,
                 companyName = company job, res_status = Duplicate,
                 errorMessage = None, res_notes = Some ''Already applied to this job'' \<rparr>,
           ledger, [])
      | Inr False \<Rightarrow>
          (case navigateAndSubmit pg job of
             (Some e, t) \<Rightarrow> (Inl e, ledger, t)
           | (None, t) \<Rightarrow>
               (case logApplication db ledger
                       \<lparr> user_id = id_user userConfig, job_title = title job,
                         company_name = company job, job_url = url job, status = Applied,
                         job_notes = Some ''Successfully applied via AutoTalent'',
                         error_message = None \<rparr> of
                  Inl e \<Rightarrow> (Inl e, ledger, t)
                | Inr ledger' \<Rightarrow>
                    (Inr \<lparr> success = True, jobUrl = url job, jobTitle = title job,
                           companyName = company job, res_status = Applied,
                           errorMessage = None, res_notes = Some ''Successfully applied'' \<rparr>,
                     ledger', t))))"

text \<open>\<open>error instanceof Error ? error.message : 'Unknown error'\<close>.\<close>

definition messageOf :: "exn \<Rightarrow> string" where
  "messageOf e = (case e of JsError m \<Rightarrow> m | NonError \<Rightarrow> ''Unknown error'')"

text \<open>Lines 307 to 335: the \<open>catch\<close> block; a failing insert is thrown to the caller.\<close>

definition catchApply ::
  "store \<Rightarrow> job_page \<Rightarrow> AppliedJob list \<Rightarrow> JobSearchResult \<Rightarrow> userConfig \<Rightarrow> exn \<Rightarrow> action list
     \<Rightarrow> (exn + ApplicationResult) \<times> AppliedJob list \<times> action list" where
  "catchApply db pg ledger job userConfig err t =
     (let error' = (if elapsed_ms pg > 60000
                   then JsError ''Application timeout after 60000ms'' else err)
      in case logApplication db ledger
                \<lparr> user_id = id_user userConfig, job_title = title job,
                  company_name = company job, job_url = url job, status = Error,
                  job_notes = Some ''Failed to apply'',
                  error_message = Some (messageOf error') \<rparr> of
           Inl e \<Rightarrow> (Inl e, ledger, t)
         | Inr ledger' \<Rightarrow>
             (Inr \<lparr> success = False, jobUrl = url job, jobTitle = title job,
                    companyName = company job, res_status = Error,
                    errorMessage = Some (messageOf error'), res_notes = None \<rparr>,
              ledger', t))"

text \<open>
  \<open>applyToJob\<close>: the result or the exception thrown to the caller, the ledger
  afterwards, and the page actions performed.
\<close>

definition applyToJob ::
  "PlaywrightJobApplicator \<Rightarrow> store \<Rightarrow> job_page \<Rightarrow> AppliedJob list \<Rightarrow> JobSearchResult
     \<Rightarrow> userConfig \<Rightarrow> (exn + ApplicationResult) \<times> AppliedJob list \<times> action list" where
  "applyToJob this db pg ledger job userConfig =
     (if \<not> page this then (Inl (JsError ''Browser not initialized''), ledger, [])
      else
        (case tryApply db pg ledger job userConfig of
           (Inr result, ledger', t) \<Rightarrow> (Inr result, ledger', t)
         | (Inl err, ledger', t) \<Rightarrow> catchApply db pg ledger' job userConfig err t))"

text \<open>The status \<open>applyToJob\<close> returns; \<open>None\<close> when it throws.\<close>

definition outcome ::
  "(exn + ApplicationResult) \<times> AppliedJob list \<times> action list \<Rightarrow> status option" where
  "outcome r = (case fst r of Inl _ \<Rightarrow> None | Inr result \<Rightarrow> Some (res_status result))"

definition ledgerAfter ::
  "(exn + ApplicationResult) \<times> AppliedJob list \<times> action list \<Rightarrow> AppliedJob list" where
  "ledgerAfter r = fst (snd r)"

definition actionsOf ::
  "(exn + ApplicationResult) \<times> AppliedJob list \<times> action list \<Rightarrow> action list" where
  "actionsOf r = snd (snd r)"

text \<open>
  \<open>processUser\<close>, lines 114 to 135: the postings are attempted one after the other,
  each \<open>applyToJob\<close> awaited before the next; an exception is counted and the loop
  goes on. Every posting comes with what its page and the store do during its turn.
\<close>

fun applyJobs ::
  "PlaywrightJobApplicator \<Rightarrow> (store \<times> job_page \<times> JobSearchResult) list \<Rightarrow> userConfig
     \<Rightarrow> AppliedJob list \<Rightarrow> (exn + ApplicationResult) list \<times> AppliedJob list" where
  "applyJobs this [] userConfig ledger = ([], ledger)"
| "applyJobs this ((db, pg, job) # rest) userConfig ledger =
     (case applyToJob this db pg ledger job userConfig of
        (r, ledger', t) \<Rightarrow>
          (case applyJobs this rest userConfig ledger' of
             (rs, ledger'') \<Rightarrow> (r # rs, ledger'')))"

text \<open>The results of the loop that stand for an attempt ended as applied or as error.\<close>

definition isLogged :: "exn + ApplicationResult \<Rightarrow> bool" where
  "isLogged r =
     (case r of
        Inl _ \<Rightarrow> False
      | Inr result \<Rightarrow> res_status result = Applied \<or> res_status result = Error)"

section \<open>\<open>improvedSubmit\<close> and \<open>handlePhoneInput\<close>\<close>

text \<open>
  \<open>improvedSubmit\<close>, lines 1510 to 1540: the first submit selector that matches is
  clicked, then the validation-error indicator is looked for. No other method calls it.
\<close>

fun improvedSubmitLoop :: "job_page \<Rightarrow> selector list \<Rightarrow> (exn + bool) \<times> action list" where
  "improvedSubmitLoop pg [] = (Inr False, [])"
| "improvedSubmitLoop pg (sel # rest) =
     (if present pg sel then
        (case click_fails pg sel of
           Some e \<Rightarrow> (Inl e, [Query sel, Click sel])
         | None \<Rightarrow>
             (Inr (\<not> present pg SelValidationError),
              [Query sel, Click sel, WaitForTimeout 2000, Query SelValidationError]))
      else (case improvedSubmitLoop pg rest of (r, t) \<Rightarrow> (r, Query sel # t)))"

definition improvedSubmit ::
  "PlaywrightJobApplicator \<Rightarrow> job_page \<Rightarrow> (exn + bool) \<times> action list" where
  "improvedSubmit this pg =
     (if \<not> page this then (Inr False, [])
      else improvedSubmitLoop pg
             [SelSubmitButtonType, SelSubmitInputType, SelSubmitApplicationText,
              SelSubmitText, SelApplyText])"




section \<open>The worker process: \<open>cleanup\<close> and the signal handlers\<close>

text \<open>
  \<open>cleanup\<close>, lines 487 to 508 of playwrightApply.ts: page, context and browser are
  closed in turn; the first \<open>close\<close> that throws ends it (the error is logged).
  The flags say which \<open>close\<close> throws.
\<close>

record closing =
  page_close_fails :: bool
  context_close_fails :: bool
  browser_close_fails :: bool

definition cleanup :: "closing \<Rightarrow> PlaywrightJobApplicator \<Rightarrow> PlaywrightJobApplicator" where
  "cleanup c this =
     (if page this \<and> page_close_fails c then this
      else let this1 = this\<lparr>page := False\<rparr>
           in if browser_context this1 \<and> context_close_fails c then this1
              else let this2 = this1\<lparr>browser_context := False\<rparr>
                   in if browser this2 \<and> browser_close_fails c then this2
                      else this2\<lparr>browser := False\<rparr>)"

text \<open>
  The process: the worker's applicator and guard, and the exit code once
  \<open>process.exit\<close> has been called.
\<close>

record process_state =
  playwrightApplicator :: PlaywrightJobApplicator
  isRunning :: bool
  exited :: "int option"

text \<open>\<open>stopScheduler\<close>, lines 214 to 218 of autoApplyWorker.ts: it only logs.\<close>

definition stopScheduler :: "process_state \<Rightarrow> process_state" where
  "stopScheduler ps = ps"

text \<open>
  The handler of \<open>SIGINT\<close> and of \<open>SIGTERM\<close>, lines 225 to 235: log,
  \<open>stopScheduler()\<close>, \<open>process.exit(0)\<close>.
\<close>

definition onSignal :: "process_state \<Rightarrow> process_state" where
  "onSignal ps = (stopScheduler ps)\<lparr>exited := Some 0\<rparr>"

text \<open>The \<open>finally\<close> block of \<open>runAutoApplyJob\<close>, lines 77 to 81.\<close>

definition runFinally :: "closing \<Rightarrow> process_state \<Rightarrow> process_state" where
  "runFinally c ps =
     ps\<lparr>playwrightApplicator := cleanup c (playwrightApplicator ps), isRunning := False\<rparr>"

section \<open>Concrete inputs\<close>

definition this_ready :: PlaywrightJobApplicator where
  "this_ready = \<lparr> browser = True, browser_context = True, page = True \<rparr>"

definition this_uninitialized :: PlaywrightJobApplicator where
  "this_uninitialized = \<lparr> browser = False, browser_context = False, page = False \<rparr>"

definition user_u1 :: userConfig where
  "user_u1 = \<lparr> id_user = ''u1'', full_name = Some ''Ada Lovelace'',
               phone = Some ''+44 20 7946 0958'', country = Some ''United Kingdom'',
               search_terms = Some ''nurse'', search_location = Some ''Berlin'',
               blacklisted_companies = Some ''Acme, Globex'', skip_keywords = Some ''defi'',
               skip_security_clearance = True \<rparr>"

definition user_u2 :: userConfig where
  "user_u2 = \<lparr> id_user = ''u2'', full_name = None,
               phone = Some ''030 1234567'', country = Some ''Germany'',
               search_terms = None, search_location = None,
               blacklisted_companies = None, skip_keywords = None,
               skip_security_clearance = False \<rparr>"

definition job_x :: JobSearchResult where
  "job_x = \<lparr> title = ''Software Engineer'', company = ''Initech'', location = ''Remote'',
             url = ''https://jobs.workable.com/view/x'', description = Some [],
             posted_date = Some [] \<rparr>"

text \<open>A posting as \<open>JobSearchResult\<close> allows it: no description.\<close>

definition job_nodesc :: JobSearchResult where
  "job_nodesc = \<lparr> title = ''Software Engineer'', company = ''Initech'', location = ''Remote'',
                  url = ''https://jobs.workable.com/view/y'', description = None,
                  posted_date = None \<rparr>"

definition job_acme :: JobSearchResult where
  "job_acme = \<lparr> title = ''Software Engineer'', company = ''ACME Corp'', location = ''Remote'',
                url = ''https://jobs.workable.com/view/z'', description = Some [],
                posted_date = Some [] \<rparr>"

definition db_ok :: store where
  "db_ok = \<lparr> select_fails = None, insert_fails = (\<lambda>_. None) \<rparr>"

text \<open>A posting page where every step succeeds and the success indicator shows.\<close>

definition page_ok :: job_page where
  "page_ok = \<lparr> goto_job = Loaded, appears = (\<lambda>_. None),
               present = (\<lambda>s. s = SelSubmit \<or> s = SelSubmitButtonType \<or> s = SelSuccess
                               \<or> s = SelPhoneInput),
               click_fails = (\<lambda>_. None), evaluate_click_fails = None,
               fill_fails = (\<lambda>_. None), fill_form_fails = None, elapsed_ms = 20000 \<rparr>"

text \<open>The same page when the form answers the submission with a validation error.\<close>

definition page_rejected :: job_page where
  "page_rejected =
     page_ok \<lparr> present := (\<lambda>s. s = SelSubmit \<or> s = SelSubmitButtonType \<or> s = SelValidationError
                                 \<or> s = SelPhoneInput) \<rparr>"

definition record_x :: "status \<Rightarrow> AppliedJob" where
  "record_x st = \<lparr> user_id = ''u1'', job_title = ''Software Engineer'',
                    company_name = ''Initech'', job_url = ''https://jobs.workable.com/view/x'',
                    status = st, job_notes = None, error_message = None \<rparr>"

definition search_page_empty :: search_page where
  "search_page_empty = \<lparr> goto_search = None,
                         listing_appears = (\<lambda>_. Some (JsError ''Timeout 5000ms exceeded'')),
                         querySelectorAll = (\<lambda>_. []), evaluate_fails = None \<rparr>"

definition posting :: "string \<Rightarrow> string \<Rightarrow> JobSearchResult" where
  "posting t u = \<lparr> title = t, company = ''Initech'', location = ''Remote'', url = u,
                   description = Some [], posted_date = Some [] \<rparr>"

text \<open>Twelve raw results, the third and the fifth repeating the URL of the first.\<close>

definition raw12 :: "JobSearchResult list" where
  "raw12 = [posting ''t1'' ''a'', posting ''t2'' ''b'', posting ''t3'' ''a'', posting ''t4'' ''c'',
            posting ''t5'' ''a'', posting ''t6'' ''d'', posting ''t7'' ''e'', posting ''t8'' ''f'',
            posting ''t9'' ''g'', posting ''t10'' ''h'', posting ''t11'' ''i'',
            posting ''t12'' ''j'']"

text \<open>
  A search page whose first listing selector appears and matches twelve elements,
  which give the twelve raw results above.
\<close>

definition card_of :: "string \<Rightarrow> string \<Rightarrow> card" where
  "card_of t u = \<lparr> titleElement = Some t, companyElement = Some ''Initech'',
                   locationElement = None, href = u \<rparr>"

definition search_page_12 :: search_page where
  "search_page_12 =
     \<lparr> goto_search = None, listing_appears = (\<lambda>_. None),
       querySelectorAll =
         (\<lambda>_. [card_of ''t1'' ''a'', card_of ''t2'' ''b'', card_of ''t3'' ''a'',
                card_of ''t4'' ''c'', card_of ''t5'' ''a'', card_of ''t6'' ''d'',
                card_of ''t7'' ''e'', card_of ''t8'' ''f'', card_of ''t9'' ''g'',
                card_of ''t10'' ''h'', card_of ''t11'' ''i'', card_of ''t12'' ''j'']),
       evaluate_fails = None \<rparr>"


definition process_running :: process_state where
  "process_running = \<lparr> playwrightApplicator = this_ready, isRunning = True, exited = None \<rparr>"

definition closing_ok :: closing where
  "closing_ok = \<lparr> page_close_fails = False, context_close_fails = False,
                  browser_close_fails = False \<rparr>"

section \<open>Discovery: the search URL, deduplication and the cap\<close>

lemma searchUrl_value:
  "searchUrl u = ''https://jobs.workable.com/search?q=software%20engineer%20developer%20programmer&location=Remote''"
  by (simp add: searchUrl_def encodeURIComponent_def uriUnreserved_def hexDigit_def)

lemma findIndex_upper: "findIndex P xs < int (length xs)"
  by (induction xs) (auto simp: Let_def)

lemma findIndex_neg_iff: "findIndex P xs < 0 \<longleftrightarrow> (\<forall>x\<in>set xs. \<not> P x)"
  by (induction xs) (auto simp: Let_def)

lemma findIndex_none: "\<forall>x\<in>set xs. \<not> P x \<Longrightarrow> findIndex P xs = - 1"
  by (induction xs) (auto simp: Let_def)

lemma findIndex_append:
  "findIndex P (xs @ ys) =
     (if \<exists>x\<in>set xs. P x then findIndex P xs
      else if \<exists>y\<in>set ys. P y then int (length xs) + findIndex P ys else - 1)"
proof (induction xs)
  case Nil
  show ?case by (simp add: findIndex_none)
next
  case (Cons a xs)
  show ?case
  proof (cases "P a")
    case True
    then show ?thesis by simp
  next
    case False
    have nn: "\<exists>y\<in>set ys. P y \<Longrightarrow> 0 \<le> findIndex P ys"
      using findIndex_neg_iff [of P ys] by auto
    show ?thesis
    proof (cases "\<exists>x\<in>set xs. P x")
      case True
      with False Cons show ?thesis by (simp add: Let_def)
    next
      case nx: False
      show ?thesis
      proof (cases "\<exists>y\<in>set ys. P y")
        case True
        with nx False Cons nn show ?thesis by (simp add: Let_def)
      next
        case ny: False
        with nx False Cons show ?thesis by (simp add: Let_def)
      qed
    qed
  qed
qed

lemma unique_gen:
  "map snd (filter (\<lambda>(index, job). int index = findIndex (\<lambda>j. url j = url job) (pre @ ys))
                   (enumerate (length pre) ys))
   = dedupFirst (filter (\<lambda>j. url j \<notin> url ` set pre) ys)"
proof (induction ys arbitrary: pre)
  case Nil
  then show ?case by simp
next
  case (Cons y ys)
  have tl: "map snd (filter (\<lambda>(index, job). int index = findIndex (\<lambda>j. url j = url job) (pre @ y # ys))
                   (enumerate (Suc (length pre)) ys))
     = dedupFirst (filter (\<lambda>j. url j \<notin> url ` set (pre @ [y])) ys)"
    using Cons.IH [of "pre @ [y]"] by simp
  have hd: "int (length pre) = findIndex (\<lambda>j. url j = url y) (pre @ y # ys)
            \<longleftrightarrow> url y \<notin> url ` set pre"
  proof (cases "\<exists>x\<in>set pre. url x = url y")
    case True
    then obtain x where "x \<in> set pre" "url x = url y" by blast
    then have "url y \<in> url ` set pre" by (metis imageI)
    with True show ?thesis
      using findIndex_upper [of "\<lambda>j. url j = url y" pre]
      by (simp add: findIndex_append)
  next
    case False
    then have "url y \<notin> url ` set pre" by (auto simp: image_iff)
    with False show ?thesis by (simp add: findIndex_append)
  qed
  have flt: "filter (\<lambda>j. url j \<notin> url ` set (pre @ [y])) ys
             = filter (\<lambda>j. url j \<noteq> url y) (filter (\<lambda>j. url j \<notin> url ` set pre) ys)"
    by (auto intro: filter_cong)
  show ?case
  proof (cases "url y \<in> url ` set pre")
    case True
    then have "filter (\<lambda>j. url j \<notin> url ` set (pre @ [y])) ys
               = filter (\<lambda>j. url j \<notin> url ` set pre) ys"
      by (auto intro: filter_cong)
    with True hd tl show ?thesis by simp
  next
    case False
    with hd tl flt show ?thesis by simp
  qed
qed

lemma uniqueJobs_dedupFirst: "uniqueJobs results = dedupFirst results"
  using unique_gen [of "[]" results] by (simp add: uniqueJobs_def)

lemma dedupFirst_urls: "url ` set (dedupFirst xs) = url ` set xs"
  by (induction xs rule: dedupFirst.induct) auto

lemma dedupFirst_distinct: "distinct (map url (dedupFirst xs))"
proof (induction xs rule: dedupFirst.induct)
  case 1
  then show ?case by simp
next
  case (2 x xs)
  have "url x \<notin> url ` set (dedupFirst (filter (\<lambda>j. url j \<noteq> url x) xs))"
    by (auto simp: dedupFirst_urls)
  with 2 show ?case by simp
qed

lemma dedupFirst_length: "length (dedupFirst xs) = card (url ` set xs)"
proof -
  have "card (url ` set xs) = card (set (map url (dedupFirst xs)))"
    by (simp add: dedupFirst_urls)
  also have "\<dots> = length (map url (dedupFirst xs))"
    by (rule distinct_card) (rule dedupFirst_distinct)
  finally show ?thesis by simp
qed

lemma dedupFirst_first:
  "j \<in> set (dedupFirst xs) \<Longrightarrow> List.find (\<lambda>x. url x = url j) xs = Some j"
proof (induction xs rule: dedupFirst.induct)
  case 1
  then show ?case by simp
next
  case (2 x xs)
  show ?case
  proof (cases "j = x")
    case True
    then show ?thesis by simp
  next
    case False
    with 2 have m: "j \<in> set (dedupFirst (filter (\<lambda>j. url j \<noteq> url x) xs))" by simp
    then have "url j \<in> url ` set (filter (\<lambda>j. url j \<noteq> url x) xs)"
      using dedupFirst_urls by blast
    then have ne: "url x \<noteq> url j" by auto
    have "List.find (\<lambda>y. url y = url j) (filter (\<lambda>j. url j \<noteq> url x) xs) = Some j"
      using 2 m by simp
    moreover have "List.find (\<lambda>y. url y = url j) (filter (\<lambda>j. url j \<noteq> url x) xs)
                   = List.find (\<lambda>y. url y = url j) xs"
      using ne by (induction xs) auto
    ultimately show ?thesis using ne by simp
  qed
qed

text \<open>
  Claim C6. The extraction removes repeated URLs first, keeping the first result of
  each URL (\<open>dedupFirst\<close>), and cuts the list to ten afterwards: the output has
  pairwise distinct URLs, its length is the smaller of ten and the number of distinct
  URLs among the raw results, and every result kept is the first raw result with its
  URL. Whatever \<open>searchJobs\<close> returns has distinct URLs and at most ten entries, and
  when the browser is initialised, the navigation succeeds, a listing selector appears
  and the extraction does not fail, \<open>searchJobs\<close> returns exactly this deduplicated
  and capped list of the results extracted from the elements of that selector.
  The witness is the example of twelve raw results with two repeated URLs, on which
  \<open>searchJobs\<close> returns exactly ten, the eleventh and twelfth among them.
\<close>

theorem discovery_dedup_then_cap:
  "dedupAndCap raw = take 10 (dedupFirst raw)
   \<and> distinct (map url (dedupAndCap raw))
   \<and> length (dedupAndCap raw) = min 10 (card (url ` set raw))
   \<and> (\<forall>j\<in>set (dedupAndCap raw). List.find (\<lambda>x. url x = url j) raw = Some j)
   \<and> (\<forall>out t. searchJobs this pg u = (Inr out, t)
         \<longrightarrow> distinct (map url out) \<and> length out \<le> 10)
   \<and> (\<forall>jobCards t. page this \<and> goto_search pg = None
         \<and> chooseJobCards pg = (Inr jobCards, t) \<and> evaluate_fails pg = None
         \<longrightarrow> searchJobs this pg u
               = (Inr (dedupAndCap (List.map_filter extractCard (querySelectorAll pg jobCards))),
                  Goto (searchUrl u) # t))"
proof -
  have eq: "dedupAndCap xs = take 10 (dedupFirst xs)" for xs
    by (simp add: dedupAndCap_def uniqueJobs_dedupFirst)
  have d: "distinct (map url (dedupAndCap xs))" for xs
    using dedupFirst_distinct [of xs] by (simp add: eq take_map [symmetric] distinct_take)
  have l: "length (dedupAndCap raw) = min 10 (card (url ` set raw))"
    by (simp add: eq dedupFirst_length min.commute)
  have f: "\<forall>j\<in>set (dedupAndCap raw). List.find (\<lambda>x. url x = url j) raw = Some j"
    using dedupFirst_first [of _ raw] by (auto simp: eq dest: in_set_takeD)
  have s: "\<forall>out t. searchJobs this pg u = (Inr out, t)
         \<longrightarrow> distinct (map url out) \<and> length out \<le> 10"
    using d by (auto simp: searchJobs_def eq split: if_splits option.splits sum.splits prod.splits)
  have v: "\<forall>jobCards t. page this \<and> goto_search pg = None
         \<and> chooseJobCards pg = (Inr jobCards, t) \<and> evaluate_fails pg = None
         \<longrightarrow> searchJobs this pg u
               = (Inr (dedupAndCap (List.map_filter extractCard (querySelectorAll pg jobCards))),
                  Goto (searchUrl u) # t)"
    by (simp add: searchJobs_def)
  show ?thesis using eq d l f s v by blast
qed

theorem discovery_dedup_then_cap_witness:
  "length raw12 = 12 \<and> map url raw12 = [''a'', ''b'', ''a'', ''c'', ''a'', ''d'', ''e'', ''f'', ''g'', ''h'', ''i'', ''j'']
   \<and> map title (dedupAndCap raw12)
       = [''t1'', ''t2'', ''t4'', ''t6'', ''t7'', ''t8'', ''t9'', ''t10'', ''t11'', ''t12'']
   \<and> length (dedupAndCap raw12) = 10
   \<and> distinct (map url (dedupAndCap raw12))
   \<and> page this_ready \<and> goto_search search_page_12 = None \<and> evaluate_fails search_page_12 = None
   \<and> chooseJobCards search_page_12 = (Inr SelJobCardTestId, [WaitForSelector SelJobCardTestId])
   \<and> List.map_filter extractCard (querySelectorAll search_page_12 SelJobCardTestId) = raw12
   \<and> fst (searchJobs this_ready search_page_12 user_u1)
       = Inr [posting ''t1'' ''a'', posting ''t2'' ''b'', posting ''t4'' ''c'', posting ''t6'' ''d'',
              posting ''t7'' ''e'', posting ''t8'' ''f'', posting ''t9'' ''g'', posting ''t10'' ''h'',
              posting ''t11'' ''i'', posting ''t12'' ''j'']"
proof -
  note th = discovery_dedup_then_cap [of raw12 this_ready search_page_12 user_u1]
  have p: "page this_ready \<and> goto_search search_page_12 = None \<and> evaluate_fails search_page_12 = None"
    by (simp add: this_ready_def search_page_12_def)
  have c: "chooseJobCards search_page_12 = (Inr SelJobCardTestId, [WaitForSelector SelJobCardTestId])"
    by (simp add: chooseJobCards_def search_page_12_def)
  have r: "List.map_filter extractCard (querySelectorAll search_page_12 SelJobCardTestId) = raw12"
    by (simp add: search_page_12_def List.map_filter_def extractCard_def card_of_def raw12_def
          posting_def orElse_def trim_def isSpace_def)
  have k: "dedupAndCap raw12
       = [posting ''t1'' ''a'', posting ''t2'' ''b'', posting ''t4'' ''c'', posting ''t6'' ''d'',
          posting ''t7'' ''e'', posting ''t8'' ''f'', posting ''t9'' ''g'', posting ''t10'' ''h'',
          posting ''t11'' ''i'', posting ''t12'' ''j'']"
    using th [THEN conjunct1] by (simp add: raw12_def posting_def)
  from th have "\<forall>jobCards t. page this_ready \<and> goto_search search_page_12 = None
         \<and> chooseJobCards search_page_12 = (Inr jobCards, t) \<and> evaluate_fails search_page_12 = None
         \<longrightarrow> searchJobs this_ready search_page_12 user_u1
               = (Inr (dedupAndCap (List.map_filter extractCard
                                      (querySelectorAll search_page_12 jobCards))),
                  Goto (searchUrl user_u1) # t)"
    by (elim conjE)
  then have "page this_ready \<and> goto_search search_page_12 = None
         \<and> chooseJobCards search_page_12 = (Inr SelJobCardTestId, [WaitForSelector SelJobCardTestId])
         \<and> evaluate_fails search_page_12 = None
         \<longrightarrow> searchJobs this_ready search_page_12 user_u1
               = (Inr (dedupAndCap (List.map_filter extractCard
                                      (querySelectorAll search_page_12 SelJobCardTestId))),
                  Goto (searchUrl user_u1) # [WaitForSelector SelJobCardTestId])"
    by (elim allE)
  with p c have "searchJobs this_ready search_page_12 user_u1
               = (Inr (dedupAndCap (List.map_filter extractCard
                                      (querySelectorAll search_page_12 SelJobCardTestId))),
                  Goto (searchUrl user_u1) # [WaitForSelector SelJobCardTestId])"
    by (elim impE conjE) (intro conjI; assumption)
  then have s: "fst (searchJobs this_ready search_page_12 user_u1) = Inr (dedupAndCap raw12)"
    by (simp only: r fst_conv)
  have t: "length raw12 = 12 \<and> map url raw12
       = [''a'', ''b'', ''a'', ''c'', ''a'', ''d'', ''e'', ''f'', ''g'', ''h'', ''i'', ''j'']"
    by (simp add: raw12_def posting_def)
  have d: "map title (dedupAndCap raw12)
       = [''t1'', ''t2'', ''t4'', ''t6'', ''t7'', ''t8'', ''t9'', ''t10'', ''t11'', ''t12'']
     \<and> length (dedupAndCap raw12) = 10 \<and> distinct (map url (dedupAndCap raw12))"
    by (simp add: k posting_def)
  have e: "fst (searchJobs this_ready search_page_12 user_u1)
       = Inr [posting ''t1'' ''a'', posting ''t2'' ''b'', posting ''t4'' ''c'', posting ''t6'' ''d'',
              posting ''t7'' ''e'', posting ''t8'' ''f'', posting ''t9'' ''g'', posting ''t10'' ''h'',
              posting ''t11'' ''i'', posting ''t12'' ''j'']"
    by (simp only: s k)
  show ?thesis using t d p c r e by (intro conjI) (elim conjE, assumption)+
qed

lemma chooseJobCards_fails_iff:
  "(\<exists>e. fst (chooseJobCards pg) = Inl e) \<longleftrightarrow>
     listing_appears pg SelJobCardTestId \<noteq> None \<and> listing_appears pg SelJobCardClass \<noteq> None
     \<and> listing_appears pg SelClassJob \<noteq> None \<and> listing_appears pg SelJobsLink \<noteq> None"
  by (auto simp: chooseJobCards_def split: option.splits)

text \<open>
  Claim C7, as amended. Once the browser is initialised (\<open>this.page\<close> is set),
  \<open>searchJobs\<close> returns a list and never throws; when the navigation fails, when
  none of the four listing selectors appears, or when the extraction fails, that list
  is empty. With no page the guard before the \<open>try\<close> block throws
  \<open>Browser not initialized\<close> to the caller.
\<close>

theorem searchJobs_never_throws_when_initialized:
  "(page this \<longrightarrow>
      (\<exists>out. fst (searchJobs this pg u) = Inr out)
      \<and> (goto_search pg \<noteq> None
          \<or> (listing_appears pg SelJobCardTestId \<noteq> None \<and> listing_appears pg SelJobCardClass \<noteq> None
              \<and> listing_appears pg SelClassJob \<noteq> None \<and> listing_appears pg SelJobsLink \<noteq> None)
          \<or> evaluate_fails pg \<noteq> None
          \<longrightarrow> fst (searchJobs this pg u) = Inr []))
   \<and> (\<not> page this \<longrightarrow> fst (searchJobs this pg u) = Inl (JsError ''Browser not initialized''))"
  using chooseJobCards_fails_iff [of pg]
  by (auto simp: searchJobs_def split: option.splits sum.splits prod.splits)

theorem searchJobs_never_throws_when_initialized_witness:
  "page this_ready \<and> listing_appears search_page_empty SelJobsLink \<noteq> None
   \<and> fst (searchJobs this_ready search_page_empty user_u1) = Inr []"
  using searchJobs_never_throws_when_initialized [of this_ready search_page_empty user_u1]
  by (simp add: this_ready_def search_page_empty_def)

text \<open>
  Claim C7 as stated fails: on an applicator without a page, \<open>searchJobs\<close> throws.
\<close>

theorem searchJobs_uninitialized_counterexample:
  "fst (searchJobs this_uninitialized search_page_empty user_u1)
     = Inl (JsError ''Browser not initialized'')"
  by (simp add: searchJobs_def this_uninitialized_def)

text \<open>
  Claim C10. \<open>searchJobs\<close> does not read its \<open>userConfig\<close> argument: for any two
  configurations it behaves the same on the same page, and the URL it opens is built
  from the fixed terms \<open>software engineer developer programmer\<close> and the fixed
  location \<open>Remote\<close>.
\<close>

theorem searchJobs_ignores_userConfig:
  "searchJobs this pg u1 = searchJobs this pg u2
   \<and> searchUrl u1 = searchUrl u2
   \<and> searchUrl u1 = ''https://jobs.workable.com/search?q=software%20engineer%20developer%20programmer&location=Remote''"
proof -
  have "searchJobs this pg u1 = searchJobs this pg u2"
    unfolding searchJobs_def searchUrl_def ..
  then show ?thesis by (simp add: searchUrl_value)
qed

theorem searchJobs_ignores_userConfig_witness:
  "searchJobs this_ready search_page_empty user_u1 = searchJobs this_ready search_page_empty user_u2
   \<and> search_terms user_u1 \<noteq> search_terms user_u2
   \<and> search_location user_u1 \<noteq> search_location user_u2"
  using searchJobs_ignores_userConfig [of this_ready search_page_empty user_u1 user_u2]
  by (simp add: user_u1_def user_u2_def)

section \<open>Eligibility filter\<close>

lemma includes_str_sublist: "includes_str s k \<longleftrightarrow> sublist k s"
  by (induction s) (simp_all add: sublist_Cons_right)

lemma of_char_lowerChar:
  "(of_char (lowerChar c) :: nat) = (if isUpper c then of_char c + 32 else of_char c)"
  by (simp add: lowerChar_def isUpper_def)

lemma lowerChar_comma: "lowerChar c = CHR '','' \<longleftrightarrow> c = CHR '',''"
proof
  assume "lowerChar c = CHR '',''"
  then have "(of_char (lowerChar c) :: nat) = of_char (CHR '','')" by simp
  then have "(of_char c :: nat) = 44"
    by (simp add: of_char_lowerChar isUpper_def split: if_splits)
  then have "(of_char c :: nat) = of_char (CHR '','')" by simp
  then show "c = CHR '',''" by (simp only: of_char_eq_iff)
next
  assume "c = CHR '',''"
  then show "lowerChar c = CHR '',''" by (simp add: lowerChar_def isUpper_def)
qed

lemma isSpace_lowerChar: "isSpace (lowerChar c) = isSpace c"
  by (auto simp: isSpace_def of_char_lowerChar isUpper_def)

lemma split_comma_lower: "split_comma (toLowerCase s) = map toLowerCase (split_comma s)"
proof (induction s)
  case Nil
  then show ?case by (simp add: toLowerCase_def)
next
  case (Cons c s)
  then show ?case
    by (cases "split_comma s") (auto simp: toLowerCase_def lowerChar_comma)
qed

lemma dropWhile_lower:
  "dropWhile isSpace (map lowerChar s) = map lowerChar (dropWhile isSpace s)"
  by (induction s) (simp_all add: isSpace_lowerChar)

lemma trim_lower: "trim (toLowerCase s) = toLowerCase (trim s)"
  by (simp add: trim_def toLowerCase_def dropWhile_lower rev_map)

lemma entries_lower:
  "map trim (split_comma (toLowerCase s)) = map toLowerCase (map trim (split_comma s))"
  by (simp add: split_comma_lower trim_lower)

lemma companyBlacklisted_iff: "companyBlacklisted rules p \<longleftrightarrow> employerMatches rules p"
  by (auto simp: companyBlacklisted_def employerMatches_def ruleEntries_def occursIn_def
        list_ex_iff includes_str_sublist entries_lower Let_def
      split: option.splits)

lemma hasSkipKeyword_iff:
  "description p = Some d \<Longrightarrow> hasSkipKeyword rules p \<longleftrightarrow> keywordMatches rules p d"
  by (auto simp: hasSkipKeyword_def keywordMatches_def ruleEntries_def occursIn_def
        list_ex_iff includes_str_sublist entries_lower Let_def interpolate_def
      split: option.splits)

lemma requiresClearance_iff:
  "description p = Some d \<Longrightarrow> requiresClearance rules p \<longleftrightarrow> clearanceMatches rules p d"
  by (simp add: requiresClearance_def clearanceMatches_def occursIn_def
        includes_str_sublist Let_def interpolate_def toLowerCase_def lowerChar_def isUpper_def)

text \<open>
  For a posting that carries a description, \<open>filterJobs\<close> on the one-element list
  drops the posting exactly when one of the three exclusion predicates matches, and
  the order in which the three checks run does not matter.
\<close>

lemma filterJobs_single_iff:
  assumes "description p = Some d"
  shows "filterJobs [p] rules
           = (if employerMatches rules p \<or> keywordMatches rules p d \<or> clearanceMatches rules p d
              then [] else [p])"
  using assms
  by (simp add: filterJobs_def keepJob_def companyBlacklisted_iff hasSkipKeyword_iff
        requiresClearance_iff)

lemma keepJobInOrder_iff:
  "keepJobInOrder checks rules p \<longleftrightarrow> (\<forall>c\<in>set checks. \<not> c rules p)"
  by (induction checks) auto

lemma filterJobs_any_order:
  assumes "mset checks = mset [companyBlacklisted, hasSkipKeyword, requiresClearance]"
  shows "filter (keepJobInOrder checks rules) jobs = filterJobs jobs rules"
proof -
  have "set checks = {companyBlacklisted, hasSkipKeyword, requiresClearance}"
    using mset_eq_setD [OF assms] by auto
  then have "keepJobInOrder checks rules p = keepJob rules p" for p
    by (auto simp: keepJobInOrder_iff keepJob_def)
  then have "keepJobInOrder checks rules = keepJob rules" by (rule ext)
  then show ?thesis by (simp add: filterJobs_def)
qed

text \<open>
  Claim C5 does not hold of \<open>filterJobs\<close> for a posting without a description
  (the field is optional in \<open>JobSearchResult\<close>). The template literal prints the
  missing description as the word \<open>undefined\<close>, so the rule \<open>skip_keywords = 'defi'\<close>
  drops the posting \<open>Software Engineer\<close> at \<open>Initech\<close>, although the keyword occurs
  neither in its title nor in its employer, and none of the three exclusion predicates
  matches, whether the clearance keywords are looked for in title and description or
  in title, employer and description.
\<close>

theorem filterJobs_absent_description:
  "description job_nodesc = None \<and> skip_keywords user_u1 = Some ''defi''
   \<and> filterJobs [job_nodesc] user_u1 = []
   \<and> hasSkipKeyword user_u1 job_nodesc
   \<and> \<not> employerMatches user_u1 job_nodesc
   \<and> \<not> keywordMatches user_u1 job_nodesc []
   \<and> \<not> clearanceMatches user_u1 job_nodesc []
   \<and> \<not> clearanceMatchesText user_u1 job_nodesc []"
  by (simp add: filterJobs_def keepJob_def companyBlacklisted_def hasSkipKeyword_def
      requiresClearance_def employerMatches_def keywordMatches_def clearanceMatches_def
      clearanceMatchesText_def
      ruleEntries_def occursIn_def includes_str_sublist [symmetric] trim_def isSpace_def
      interpolate_def toLowerCase_def lowerChar_def isUpper_def job_nodesc_def user_u1_def)

section \<open>Application stage: duplicates and the ledger\<close>

lemma catchApply_outcome:
  "outcome (catchApply db pg ledger job u e t)
     = (case insert_fails db Error of None \<Rightarrow> Some Error | Some _ \<Rightarrow> None)"
  by (simp add: catchApply_def logApplication_def outcome_def Let_def split: option.splits)

lemma catchApply_ledger:
  "ledgerAfter (catchApply db pg ledger job u e t)
     = (case insert_fails db Error of
          None \<Rightarrow> ledger @ [\<lparr> user_id = id_user u, job_title = title job,
                                company_name = company job, job_url = url job, status = Error,
                                job_notes = Some ''Failed to apply'',
                                error_message =
                                  Some (messageOf (if elapsed_ms pg > 60000
                                                   then JsError ''Application timeout after 60000ms''
                                                   else e)) \<rparr>]
        | Some _ \<Rightarrow> ledger)"
  by (simp add: catchApply_def logApplication_def ledgerAfter_def Let_def split: option.splits)

lemma catchApply_actions: "actionsOf (catchApply db pg ledger job u e t) = t"
  by (simp add: catchApply_def actionsOf_def Let_def split: sum.splits)

lemma tryApply_Inr:
  "tryApply db pg ledger job u = (Inr res, ledger', t) \<Longrightarrow>
     (res_status res = Duplicate \<and> ledger' = ledger \<and> t = [])
     \<or> (res_status res = Applied
         \<and> ledger' = ledger @ [\<lparr> user_id = id_user u, job_title = title job,
                                 company_name = company job, job_url = url job, status = Applied,
                                 job_notes = Some ''Successfully applied via AutoTalent'',
                                 error_message = None \<rparr>])"
  by (auto simp: tryApply_def logApplication_def
      split: sum.splits bool.splits prod.splits option.splits)

lemma tryApply_Inl:
  "tryApply db pg ledger job u = (Inl e, ledger', t) \<Longrightarrow> ledger' = ledger"
  by (auto simp: tryApply_def logApplication_def
      split: sum.splits bool.splits prod.splits option.splits)

lemma tryApply_actions:
  "tryApply db pg ledger job u = (r, ledger', t) \<Longrightarrow>
   t = [] \<or> t = snd (navigateAndSubmit pg job)"
  by (auto simp: tryApply_def logApplication_def
      split: sum.splits bool.splits prod.splits option.splits)

lemma applyToJob_no_page:
  "\<not> page this \<Longrightarrow>
   applyToJob this db pg ledger job u = (Inl (JsError ''Browser not initialized''), ledger, [])"
  by (simp add: applyToJob_def)

lemma applyToJob_split:
  assumes "page this"
  obtains (returned) res ledger' t where "tryApply db pg ledger job u = (Inr res, ledger', t)"
      and "applyToJob this db pg ledger job u = (Inr res, ledger', t)"
    | (caught) e t where "tryApply db pg ledger job u = (Inl e, ledger, t)"
      and "applyToJob this db pg ledger job u = catchApply db pg ledger job u e t"
proof (cases "tryApply db pg ledger job u")
  case (fields r ledger' t)
  show ?thesis
  proof (cases r)
    case (Inl e)
    with fields have "ledger' = ledger" using tryApply_Inl by blast
    with fields Inl assms show ?thesis
      by (intro caught [of e t]) (simp_all add: applyToJob_def)
  next
    case (Inr res)
    with fields assms show ?thesis
      by (intro returned [of res ledger' t]) (simp_all add: applyToJob_def)
  qed
qed

lemma hasAppliedToJob_answer:
  "select_fails db = None \<Longrightarrow>
   hasAppliedToJob db ledger uid u = Inr (\<exists>r\<in>set ledger. user_id r = uid \<and> job_url r = u)"
  by (simp add: hasAppliedToJob_def filter_empty_conv)

lemma tryApply_duplicate_iff:
  "(\<exists>res ledger' t. tryApply db pg ledger job u = (Inr res, ledger', t)
       \<and> res_status res = Duplicate)
   \<longleftrightarrow> select_fails db = None
       \<and> (\<exists>r\<in>set ledger. user_id r = id_user u \<and> job_url r = url job)"
proof (cases "select_fails db")
  case (Some e)
  then show ?thesis by (simp add: tryApply_def hasAppliedToJob_def)
next
  case None
  show ?thesis
  proof (cases "\<exists>r\<in>set ledger. user_id r = id_user u \<and> job_url r = url job")
    case True
    then have "hasAppliedToJob db ledger (id_user u) (url job) = Inr True"
      using None by (simp add: hasAppliedToJob_answer)
    with None True show ?thesis by (simp add: tryApply_def)
  next
    case False
    then have "hasAppliedToJob db ledger (id_user u) (url job) = Inr False"
      using None by (simp add: hasAppliedToJob_answer)
    with None False show ?thesis
      by (auto simp: tryApply_def logApplication_def split: prod.splits option.splits)
  qed
qed

lemma apply_duplicate_iff:
  "outcome (applyToJob this db pg ledger job u) = Some Duplicate \<longleftrightarrow>
     page this \<and> select_fails db = None
     \<and> (\<exists>r\<in>set ledger. user_id r = id_user u \<and> job_url r = url job)"
proof (cases "page this")
  case False
  then show ?thesis by (simp add: applyToJob_no_page outcome_def)
next
  case True
  note t = tryApply_duplicate_iff [of db pg ledger job u]
  from True show ?thesis
  proof (cases rule: applyToJob_split [of this db pg ledger job u])
    case (returned res ledger' t)
    with True t show ?thesis by (auto simp: outcome_def)
  next
    case (caught e t')
    with True t show ?thesis by (auto simp: catchApply_outcome split: option.splits)
  qed
qed


lemma applyToJob_applied:
  assumes "outcome (applyToJob this db pg ledger job u) = Some Applied"
  shows "ledgerAfter (applyToJob this db pg ledger job u)
     = ledger @ [\<lparr> user_id = id_user u, job_title = title job, company_name = company job,
                   job_url = url job, status = Applied,
                   job_notes = Some ''Successfully applied via AutoTalent'',
                   error_message = None \<rparr>]"
proof (cases "page this")
  case False
  with assms show ?thesis by (simp add: applyToJob_no_page outcome_def)
next
  case True
  then show ?thesis
  proof (cases rule: applyToJob_split [of this db pg ledger job u])
    case (returned res ledger' t)
    with assms tryApply_Inr [OF returned(1)] show ?thesis
      by (auto simp: outcome_def ledgerAfter_def)
  next
    case (caught e t)
    with assms show ?thesis by (simp add: catchApply_outcome split: option.splits)
  qed
qed

lemma applyToJob_error:
  assumes "outcome (applyToJob this db pg ledger job u) = Some Error"
  shows "\<exists>msg. ledgerAfter (applyToJob this db pg ledger job u)
     = ledger @ [\<lparr> user_id = id_user u, job_title = title job, company_name = company job,
                   job_url = url job, status = Error, job_notes = Some ''Failed to apply'',
                   error_message = Some msg \<rparr>]"
proof (cases "page this")
  case False
  with assms show ?thesis by (simp add: applyToJob_no_page outcome_def)
next
  case True
  then show ?thesis
  proof (cases rule: applyToJob_split [of this db pg ledger job u])
    case (returned res ledger' t)
    with assms tryApply_Inr [OF returned(1)] show ?thesis
      by (auto simp: outcome_def)
  next
    case (caught e t)
    with assms show ?thesis
      by (simp add: catchApply_outcome catchApply_ledger split: option.splits)
  qed
qed

lemma applyToJob_unlogged:
  assumes "outcome (applyToJob this db pg ledger job u) = Some Duplicate
   \<or> outcome (applyToJob this db pg ledger job u) = None"
  shows "ledgerAfter (applyToJob this db pg ledger job u) = ledger"
proof (cases "page this")
  case False
  then show ?thesis by (simp add: applyToJob_no_page ledgerAfter_def)
next
  case True
  then show ?thesis
  proof (cases rule: applyToJob_split [of this db pg ledger job u])
    case (returned res ledger' t)
    with assms tryApply_Inr [OF returned(1)] show ?thesis
      by (auto simp: outcome_def ledgerAfter_def)
  next
    case (caught e t)
    with assms show ?thesis
      by (simp add: catchApply_outcome catchApply_ledger split: option.splits)
  qed
qed

lemma applyToJob_never_skipped:
  "outcome (applyToJob this db pg ledger job u) \<noteq> Some Skipped"
proof (cases "page this")
  case False
  then show ?thesis by (simp add: applyToJob_no_page outcome_def)
next
  case True
  then show ?thesis
  proof (cases rule: applyToJob_split [of this db pg ledger job u])
    case (returned res ledger' t)
    with tryApply_Inr [OF returned(1)] show ?thesis
      by (auto simp: outcome_def)
  next
    case (caught e t)
    then show ?thesis by (simp add: catchApply_outcome split: option.splits)
  qed
qed

lemma isLogged_outcome:
  "isLogged (fst r) \<longleftrightarrow> outcome r = Some Applied \<or> outcome r = Some Error"
  by (auto simp: isLogged_def outcome_def split: sum.splits)

lemma applyToJob_length:
  "length (ledgerAfter (applyToJob this db pg ledger job u))
     = length ledger + (if isLogged (fst (applyToJob this db pg ledger job u)) then 1 else 0)"
proof (cases "outcome (applyToJob this db pg ledger job u)")
  case None
  then show ?thesis using applyToJob_unlogged [of this db pg ledger job u]
    by (simp add: isLogged_outcome)
next
  case (Some st)
  then show ?thesis
    using applyToJob_unlogged [of this db pg ledger job u]
      applyToJob_applied [of this db pg ledger job u]
      applyToJob_error [of this db pg ledger job u]
      applyToJob_never_skipped [of this db pg ledger job u]
    by (cases st) (auto simp: isLogged_outcome)
qed

lemma applyJobs_length:
  "length (snd (applyJobs this items u ledger))
     = length ledger + length (filter isLogged (fst (applyJobs this items u ledger)))"
proof (induction items arbitrary: ledger)
  case Nil
  then show ?case by simp
next
  case (Cons item items)
  obtain db pg job where item: "item = (db, pg, job)" by (cases item) auto
  obtain r ledger' t where step: "applyToJob this db pg ledger job u = (r, ledger', t)"
    by (cases "applyToJob this db pg ledger job u") auto
  obtain rs ledger'' where rest: "applyJobs this items u ledger' = (rs, ledger'')"
    by (cases "applyJobs this items u ledger'") auto
  have "length ledger' = length ledger + (if isLogged r then 1 else 0)"
    using applyToJob_length [of this db pg ledger job u] step by (simp add: ledgerAfter_def)
  moreover have "length ledger'' = length ledger' + length (filter isLogged rs)"
    using Cons.IH [of ledger'] rest by simp
  ultimately show ?case using item step rest by simp
qed

lemma apply_ok_value:
  "applyToJob this_ready db_ok page_ok [] job_x user_u1 =
     (Inr \<lparr> success = True, jobUrl = url job_x, jobTitle = title job_x,
            companyName = company job_x, res_status = Applied,
            errorMessage = None, res_notes = Some ''Successfully applied'' \<rparr>,
      [\<lparr> user_id = ''u1'', job_title = title job_x, company_name = company job_x,
         job_url = url job_x, status = Applied,
         job_notes = Some ''Successfully applied via AutoTalent'', error_message = None \<rparr>],
      [Goto (url job_x), WaitForSelector SelApplyButton, Query SelBackdrop, Click SelApplyButton,
       WaitForSelector SelForm, FillApplicationForm, Query SelSubmit,
       Click SelSubmit, WaitForTimeout 5000, Query SelSuccess])"
  by (simp add: applyToJob_def tryApply_def hasAppliedToJob_def logApplication_def
        navigateAndSubmit_def this_ready_def db_ok_def page_ok_def user_u1_def)

text \<open>
  Claim C1, as amended. \<open>applyToJob\<close> returns \<open>duplicate\<close> exactly when the browser
  is initialised, the ledger query answers, and the ledger holds some record for the
  user and the posting's URL, whatever its status: a prior \<open>error\<close> (or \<open>skipped\<close>)
  record suppresses the attempt as a prior \<open>applied\<close> record does.
\<close>

theorem duplicate_iff_any_prior_record:
  "outcome (applyToJob this db pg ledger job u) = Some Duplicate \<longleftrightarrow>
     page this \<and> select_fails db = None
     \<and> (\<exists>r\<in>set ledger. user_id r = id_user u \<and> job_url r = url job)"
  by (rule apply_duplicate_iff)

theorem duplicate_iff_any_prior_record_witness:
  "outcome (applyToJob this_ready db_ok page_ok [record_x Skipped] job_x user_u1) = Some Duplicate
   \<and> outcome (applyToJob this_ready db_ok page_ok [] job_x user_u1) \<noteq> Some Duplicate"
  using duplicate_iff_any_prior_record [of this_ready db_ok page_ok "[record_x Skipped]" job_x user_u1]
    duplicate_iff_any_prior_record [of this_ready db_ok page_ok "[]" job_x user_u1]
  by (simp add: this_ready_def db_ok_def record_x_def user_u1_def job_x_def)

text \<open>
  Claim C1 as stated fails: with only an \<open>error\<close> record for the user and the URL in
  the ledger, the attempt is not made again; the result is \<open>duplicate\<close> and the page
  is not touched.
\<close>

theorem duplicate_after_error_counterexample:
  "map status [record_x Error] = [Error]
   \<and> user_id (record_x Error) = id_user user_u1 \<and> job_url (record_x Error) = url job_x
   \<and> outcome (applyToJob this_ready db_ok page_ok [record_x Error] job_x user_u1) = Some Duplicate
   \<and> actionsOf (applyToJob this_ready db_ok page_ok [record_x Error] job_x user_u1) = []"
  by (simp add: applyToJob_def tryApply_def hasAppliedToJob_def outcome_def actionsOf_def
        this_ready_def db_ok_def record_x_def user_u1_def job_x_def)

text \<open>
  Claim C2, as amended. An attempt that ends as \<open>applied\<close> or as \<open>error\<close> has
  appended exactly one record, of that status and for that user and URL, to the ledger
  by the time \<open>applyToJob\<close> returns, hence before the loop turns to the next posting;
  an attempt that ends as \<open>duplicate\<close> appends none; \<open>skipped\<close> is never returned.
  Over the loop of \<open>processUser\<close> the ledger grows by one record for each such result.
\<close>

theorem one_record_per_applied_or_error:
  "(outcome (applyToJob this db pg ledger job u) = Some Applied \<longrightarrow>
      ledgerAfter (applyToJob this db pg ledger job u)
        = ledger @ [\<lparr> user_id = id_user u, job_title = title job, company_name = company job,
                      job_url = url job, status = Applied,
                      job_notes = Some ''Successfully applied via AutoTalent'',
                      error_message = None \<rparr>])
   \<and> (outcome (applyToJob this db pg ledger job u) = Some Error \<longrightarrow>
      (\<exists>msg. ledgerAfter (applyToJob this db pg ledger job u)
        = ledger @ [\<lparr> user_id = id_user u, job_title = title job, company_name = company job,
                      job_url = url job, status = Error, job_notes = Some ''Failed to apply'',
                      error_message = Some msg \<rparr>]))
   \<and> (outcome (applyToJob this db pg ledger job u) = Some Duplicate \<longrightarrow>
      ledgerAfter (applyToJob this db pg ledger job u) = ledger)
   \<and> outcome (applyToJob this db pg ledger job u) \<noteq> Some Skipped
   \<and> length (snd (applyJobs this items u ledger))
       = length ledger + length (filter isLogged (fst (applyJobs this items u ledger)))"
  using applyToJob_applied [of this db pg ledger job u]
    applyToJob_error [of this db pg ledger job u]
    applyToJob_unlogged [of this db pg ledger job u]
    applyToJob_never_skipped [of this db pg ledger job u]
    applyJobs_length [of this items u ledger]
  by blast

theorem one_record_per_applied_or_error_witness:
  "outcome (applyToJob this_ready db_ok page_ok [] job_x user_u1) = Some Applied
   \<and> length (ledgerAfter (applyToJob this_ready db_ok page_ok [] job_x user_u1)) = 1
   \<and> outcome (applyToJob this_ready db_ok page_rejected [] job_x user_u1) = Some Error
   \<and> length (ledgerAfter (applyToJob this_ready db_ok page_rejected [] job_x user_u1)) = 1"
proof -
  have a: "outcome (applyToJob this_ready db_ok page_ok [] job_x user_u1) = Some Applied"
    by (simp add: apply_ok_value outcome_def)
  have e: "outcome (applyToJob this_ready db_ok page_rejected [] job_x user_u1) = Some Error"
    by (simp add: applyToJob_def tryApply_def catchApply_def hasAppliedToJob_def
          logApplication_def navigateAndSubmit_def outcome_def Let_def
          this_ready_def db_ok_def page_ok_def page_rejected_def)
  have "length (ledgerAfter (applyToJob this_ready db_ok page_ok [] job_x user_u1)) = 1"
    using a one_record_per_applied_or_error [of this_ready db_ok page_ok "[]" job_x user_u1 "[]"]
    by simp
  moreover have "length (ledgerAfter (applyToJob this_ready db_ok page_rejected [] job_x user_u1)) = 1"
    using e one_record_per_applied_or_error [of this_ready db_ok page_rejected "[]" job_x user_u1 "[]"]
    by auto
  ultimately show ?thesis using a e by simp
qed

text \<open>
  Claim C2 as stated fails for the terminal state \<open>duplicate\<close>: no record is written.
\<close>

theorem duplicate_writes_no_record_counterexample:
  "outcome (applyToJob this_ready db_ok page_ok [record_x Applied] job_x user_u1) = Some Duplicate
   \<and> ledgerAfter (applyToJob this_ready db_ok page_ok [record_x Applied] job_x user_u1)
       = [record_x Applied]"
  by (simp add: applyToJob_def tryApply_def hasAppliedToJob_def outcome_def ledgerAfter_def
        this_ready_def db_ok_def record_x_def user_u1_def job_x_def)




section \<open>Submission and the validation-error indicator\<close>

lemma runSteps_actions:
  "a \<in> set (snd (runSteps steps)) \<Longrightarrow> \<exists>s\<in>set steps. a \<in> set (snd s)"
proof (induction steps)
  case Nil
  then show ?case by simp
next
  case (Cons s steps)
  obtain r t where s: "s = (r, t)" by (cases s) auto
  show ?case
  proof (cases r)
    case None
    with Cons s show ?thesis by (auto split: prod.splits)
  next
    case (Some e)
    with Cons s show ?thesis by auto
  qed
qed

lemma navigateAndSubmit_no_validation_query:
  "Query SelValidationError \<notin> set (snd (navigateAndSubmit pg job))"
proof
  assume "Query SelValidationError \<in> set (snd (navigateAndSubmit pg job))"
  then show False
    unfolding navigateAndSubmit_def
    by (auto dest!: runSteps_actions split: option.splits if_splits)
qed

lemma applyToJob_never_queries_validation:
  "Query SelValidationError \<notin> set (actionsOf (applyToJob this db pg ledger job u))"
proof (cases "page this")
  case False
  then show ?thesis by (simp add: applyToJob_no_page actionsOf_def)
next
  case True
  then show ?thesis
  proof (cases rule: applyToJob_split [of this db pg ledger job u])
    case (returned res ledger' t)
    with tryApply_actions [OF returned(1)] navigateAndSubmit_no_validation_query [of pg job]
    show ?thesis by (auto simp: actionsOf_def)
  next
    case (caught e t)
    with tryApply_actions [OF caught(1)] navigateAndSubmit_no_validation_query [of pg job]
    show ?thesis by (auto simp: catchApply_actions)
  qed
qed

text \<open>
  Whether the validation-error indicator is on the page makes no difference to
  \<open>applyToJob\<close>.
\<close>

lemma navigateAndSubmit_ignores_validation_indicator:
  "navigateAndSubmit (pg\<lparr>present := (present pg)(SelValidationError := b)\<rparr>) job
     = navigateAndSubmit pg job"
  by (simp add: navigateAndSubmit_def
      cong: option.case_cong prod.case_cong nav.case_cong)

lemma tryApply_ignores_validation_indicator:
  "tryApply db (pg\<lparr>present := (present pg)(SelValidationError := b)\<rparr>) ledger job u
     = tryApply db pg ledger job u"
  unfolding tryApply_def by (simp only: navigateAndSubmit_ignores_validation_indicator)

lemma catchApply_ignores_present:
  "catchApply db (pg\<lparr>present := f\<rparr>) = catchApply db pg"
  by (intro ext) (simp add: catchApply_def)

lemma applyToJob_ignores_validation_indicator:
  "applyToJob this db (pg\<lparr>present := (present pg)(SelValidationError := b)\<rparr>) ledger job u
     = applyToJob this db pg ledger job u"
  unfolding applyToJob_def
  by (simp only: tryApply_ignores_validation_indicator catchApply_ignores_present)

text \<open>
  Claim C4 does not hold of \<open>applyToJob\<close>. On a page that shows the validation-error
  indicator and no success indicator after the submit click, the attempt ends with the
  message \<open>No success indicator found after submission\<close>, and the validation-error
  indicator is never queried; \<open>improvedSubmit\<close>, which does look for it, is not called.
\<close>

theorem applyToJob_skips_validation_check:
  "present page_rejected SelValidationError
   \<and> fst (applyToJob this_ready db_ok page_rejected [] job_x user_u1)
       = Inr \<lparr> success = False, jobUrl = url job_x, jobTitle = title job_x,
               companyName = company job_x, res_status = Error,
               errorMessage = Some ''No success indicator found after submission'',
               res_notes = None \<rparr>
   \<and> Query SelValidationError \<notin> set (actionsOf (applyToJob this_ready db_ok page_rejected [] job_x user_u1))
   \<and> improvedSubmit this_ready page_rejected
       = (Inr False, [Query SelSubmitButtonType, Click SelSubmitButtonType,
                      WaitForTimeout 2000, Query SelValidationError])"
  by (simp add: applyToJob_def tryApply_def catchApply_def hasAppliedToJob_def
        logApplication_def navigateAndSubmit_def actionsOf_def Let_def messageOf_def
        improvedSubmit_def
        this_ready_def db_ok_def page_ok_def page_rejected_def)

section \<open>The phone step\<close>





section \<open>Termination signals\<close>

lemma onSignal_keeps_applicator:
  "playwrightApplicator (onSignal ps) = playwrightApplicator ps \<and> exited (onSignal ps) = Some 0"
  by (simp add: onSignal_def stopScheduler_def)

text \<open>
  Claim C9 does not hold of the signal handlers. On \<open>SIGINT\<close> or \<open>SIGTERM\<close> during
  a run the handler exits with status 0 and leaves the applicator as it was, browser,
  context and page open; only the \<open>finally\<close> block of a run calls \<open>cleanup\<close>.
\<close>

theorem signal_handler_leaves_browser_open:
  "exited (onSignal process_running) = Some 0
   \<and> playwrightApplicator (onSignal process_running) = this_ready
   \<and> browser this_ready \<and> browser_context this_ready \<and> page this_ready
   \<and> playwrightApplicator (runFinally closing_ok process_running) = this_uninitialized"
  by (simp add: onSignal_def stopScheduler_def runFinally_def cleanup_def Let_def
        process_running_def this_ready_def this_uninitialized_def closing_ok_def)

end
